theory Spec2Isabelle
  imports Complex_Main
begin

section \<open>Loan calculator: data model\<close>

text \<open>
  A shallow embedding of \<^verbatim>\<open>calculator.py\<close>. The value of a Python \<^verbatim>\<open>float\<close> is a
  \<^typ>\<open>real\<close>; infinities and NaN as operands, and overflow, are outside the model.
  Python's \<^verbatim>\<open>int\<close> is \<^typ>\<open>int\<close>. Every exception the source can raise is a value of
  \<open>error\<close>, and a fallible function returns \<open>error + 'a\<close> with \<open>Inl\<close> for the
  exception.

  The engine is given twice. The first embedding computes in exact arithmetic: it is the
  one for the properties that are stated in exact arithmetic. The second takes the
  arithmetic as a parameter, so that what is proved of it for every arithmetic does not
  depend on rounding; its instance \<open>binary64\<close> rounds every result to the nearest
  double. The exact instance of the second embedding is the first.
\<close>


datatype LoanType = annuity | fixed_amortization | fixed_payment

record LoanRepaymentRequest =
  principal :: real
  rate :: real
  num_payments :: int
  loan_type :: LoanType
  initial_fee :: real
  payment_fee :: real
  balloon_amount :: real
  payment_number :: "int option"

text \<open>
  The fields of \<^verbatim>\<open>PaymentDetail\<close> carry the prefix \<open>pd_\<close>, since the request has
  fields of the same names.
\<close>

record PaymentDetail =
  pd_payment_number :: int
  pd_principal :: real
  pd_interest :: real
  pd_fee :: real
  pd_total_amount :: real

text \<open>
  The response model \<^verbatim>\<open>Union[AllPaymentsResponse, PaymentDetail]\<close> of
  \<^verbatim>\<open>loan_repayments\<close>.
\<close>

datatype response = AllPaymentsResponse "PaymentDetail list" | SinglePayment PaymentDetail

text \<open>
  \<open>HTTPException status p\<close> is \<^verbatim>\<open>HTTPException(status_code=status, detail=f"Payment
  number {p} is out of range.")\<close>; \<open>AttributeError\<close> is what reading the attribute
  \<^verbatim>\<open>payments\<close> of a \<^verbatim>\<open>PaymentDetail\<close> raises.
\<close>

datatype error = ZeroDivisionError | HTTPException nat int | AttributeError

section \<open>Python primitives\<close>

text \<open>Truth value of an \<^verbatim>\<open>Optional[int]\<close>: \<^verbatim>\<open>None\<close> and \<^verbatim>\<open>0\<close> are false.\<close>

definition truthy :: "int option \<Rightarrow> bool" where
  "truthy v = (case v of None \<Rightarrow> False | Some i \<Rightarrow> i \<noteq> 0)"

text \<open>\<^verbatim>\<open>a / b\<close> on floats raises \<^verbatim>\<open>ZeroDivisionError\<close> when \<^verbatim>\<open>b\<close> is zero.\<close>

definition float_truediv :: "real \<Rightarrow> real \<Rightarrow> error + real" where
  "float_truediv a b = (if b = 0 then Inl ZeroDivisionError else Inr (a / b))"

text \<open>
  \<^verbatim>\<open>x ** e\<close> for a float \<^verbatim>\<open>x\<close> and an integer \<^verbatim>\<open>e\<close>: zero to a negative power
  raises \<^verbatim>\<open>ZeroDivisionError\<close>.
\<close>

definition float_pow :: "real \<Rightarrow> int \<Rightarrow> error + real" where
  "float_pow x e =
     (if 0 \<le> e then Inr (x ^ nat e)
      else if x = 0 then Inl ZeroDivisionError
      else Inr (1 / x ^ nat (- e)))"

section \<open>Payment formulas\<close>

definition calculate_annuity_payment :: "real \<Rightarrow> real \<Rightarrow> int \<Rightarrow> error + real" where
  "calculate_annuity_payment p rt n =
     (let monthly_interest_rate = rt / 12 / 100 in
      case float_pow (1 + monthly_interest_rate) (- n) of
        Inl e \<Rightarrow> Inl e
      | Inr pw \<Rightarrow> float_truediv (p * monthly_interest_rate) (1 - pw))"

definition calculate_fixed_payment :: "real \<Rightarrow> real \<Rightarrow> int \<Rightarrow> error + real" where
  "calculate_fixed_payment p rt n =
     (let monthly_interest_rate = rt / 12 / 100 in
      if monthly_interest_rate = 0 then float_truediv p (of_int n)
      else
        case float_pow (1 + monthly_interest_rate) (- n) of
          Inl e \<Rightarrow> Inl e
        | Inr pw \<Rightarrow> float_truediv (p * monthly_interest_rate) (1 - pw))"

definition calculate_fixed_amortization_principal_payment :: "real \<Rightarrow> int \<Rightarrow> error + real" where
  "calculate_fixed_amortization_principal_payment p n = float_truediv p (of_int n)"

section \<open>The amortization engine\<close>

text \<open>
  The principal and interest components of one period, per policy (the
  \<^verbatim>\<open>if/elif\<close> chain of the loop body), from the balance before the period.
\<close>

definition policy_split :: "LoanRepaymentRequest \<Rightarrow> real \<Rightarrow> error + (real \<times> real)" where
  "policy_split request remaining_principal =
     (let monthly_interest_rate = rate request / 12 / 100 in
      case loan_type request of
        annuity \<Rightarrow>
          (case calculate_annuity_payment (principal request) (rate request) (num_payments request) of
             Inl e \<Rightarrow> Inl e
           | Inr annuity_payment \<Rightarrow>
               let interest_for_payment = remaining_principal * monthly_interest_rate
               in Inr (annuity_payment - interest_for_payment, interest_for_payment))
      | fixed_payment \<Rightarrow>
          (case calculate_fixed_payment (principal request) (rate request) (num_payments request) of
             Inl e \<Rightarrow> Inl e
           | Inr fixed_payment' \<Rightarrow>
               let interest_for_payment = remaining_principal * monthly_interest_rate
               in Inr (fixed_payment' - interest_for_payment, interest_for_payment))
      | fixed_amortization \<Rightarrow>
          (case float_truediv (principal request) (of_int (num_payments request)) of
             Inl e \<Rightarrow> Inl e
           | Inr principal_for_payment \<Rightarrow>
               Inr (principal_for_payment, remaining_principal * monthly_interest_rate)))"

text \<open>
  One iteration of the loop of \<^verbatim>\<open>loan_repayments\<close>, up to the append: from the period
  number and the balance to the new balance and the row of the period.
\<close>

definition loan_period :: "LoanRepaymentRequest \<Rightarrow> int \<Rightarrow> real \<Rightarrow> error + (real \<times> PaymentDetail)" where
  "loan_period request k remaining_principal =
     (let fee_for_payment = payment_fee request + (if k = 1 then initial_fee request else 0) in
      case policy_split request remaining_principal of
        Inl e \<Rightarrow> Inl e
      | Inr (principal_for_payment, interest_for_payment) \<Rightarrow>
          let total_payment = principal_for_payment + interest_for_payment + fee_for_payment;
              total_payment =
                (if k = num_payments request then total_payment + balloon_amount request
                 else total_payment);
              principal_for_payment =
                (if k = num_payments request then principal_for_payment + balloon_amount request
                 else principal_for_payment);
              remaining_principal = remaining_principal -
                (if k = num_payments request then principal_for_payment - balloon_amount request
                 else principal_for_payment)
          in Inr (remaining_principal,
                  \<lparr>pd_payment_number = k, pd_principal = principal_for_payment,
                   pd_interest = interest_for_payment, pd_fee = fee_for_payment,
                   pd_total_amount = total_payment\<rparr>))"

text \<open>
  The loop over \<^verbatim>\<open>range(1, num_payments + 1)\<close> either returns a row from inside the
  loop or runs to its end with the final balance and the list of rows.
\<close>

datatype loop_outcome = Returned PaymentDetail | Completed real "PaymentDetail list"

fun loan_loop :: "LoanRepaymentRequest \<Rightarrow> int list \<Rightarrow> real \<Rightarrow> PaymentDetail list \<Rightarrow> error + loop_outcome" where
  "loan_loop request [] remaining_principal payments_list =
     Inr (Completed remaining_principal payments_list)"
| "loan_loop request (k # ks) remaining_principal payments_list =
     (case loan_period request k remaining_principal of
        Inl e \<Rightarrow> Inl e
      | Inr (remaining_principal', detail) \<Rightarrow>
          let payments_list' = payments_list @ [detail] in
          if truthy (payment_number request) \<and> Some k = payment_number request
          then Inr (Returned (last payments_list'))
          else loan_loop request ks remaining_principal' payments_list')"

definition loan_repayments :: "LoanRepaymentRequest \<Rightarrow> error + response" where
  "loan_repayments request =
     (case loan_loop request [1..num_payments request] (principal request) [] of
        Inl e \<Rightarrow> Inl e
      | Inr (Returned detail) \<Rightarrow> Inr (SinglePayment detail)
      | Inr (Completed remaining_principal payments_list) \<Rightarrow>
          (case payment_number request of
             None \<Rightarrow> Inr (AllPaymentsResponse payments_list)
           | Some p \<Rightarrow>
               if p \<noteq> 0 then Inl (HTTPException 404 p)
               else Inr (AllPaymentsResponse payments_list)))"

text \<open>
  The amount by which a row reduced the balance: the expression subtracted from
  \<^verbatim>\<open>remaining_principal\<close> in the loop, read off the row. On the final row it is the
  principal component before the balloon was added to it.
\<close>

definition principal_before_balloon :: "LoanRepaymentRequest \<Rightarrow> PaymentDetail \<Rightarrow> real" where
  "principal_before_balloon request d =
     (if pd_payment_number d = num_payments request then pd_principal d - balloon_amount request
      else pd_principal d)"

section \<open>Aggregate total\<close>

definition total_sum :: "LoanRepaymentRequest \<Rightarrow> error + PaymentDetail" where
  "total_sum request =
     (case loan_repayments request of
        Inl e \<Rightarrow> Inl e
      | Inr (SinglePayment detail) \<Rightarrow> Inl AttributeError
      | Inr (AllPaymentsResponse payments) \<Rightarrow>
          Inr \<lparr>pd_payment_number = 0,
               pd_principal = sum_list (map pd_principal payments),
               pd_interest = sum_list (map pd_interest payments),
               pd_fee = sum_list (map pd_fee payments),
               pd_total_amount = sum_list (map pd_total_amount payments)\<rparr>)"

section \<open>Cash flows of the effective-rate solver\<close>

text \<open>
  The loop \<^verbatim>\<open>for _ in range(2, num_payments)\<close> of the fixed-amortization branch of
  \<^verbatim>\<open>calculate_effective_interest_rate\<close>, over the balance and the cash flows.
\<close>

fun amortization_flows :: "real \<Rightarrow> real \<Rightarrow> real \<Rightarrow> int list \<Rightarrow> real \<Rightarrow> real list \<Rightarrow> real \<times> real list" where
  "amortization_flows principal_payment monthly fee [] remaining_principal cash_flows =
     (remaining_principal, cash_flows)"
| "amortization_flows principal_payment monthly fee (k # ks) remaining_principal cash_flows =
     (let remaining_principal = remaining_principal - principal_payment;
          interest_payment = remaining_principal * monthly
      in amortization_flows principal_payment monthly fee ks remaining_principal
           (cash_flows @ [principal_payment + interest_payment + fee]))"

text \<open>
  The loop of the annuity and fixed-payment branches appends the same amount once per
  element of \<^verbatim>\<open>range(2, num_payments)\<close>.
\<close>

fun level_flows :: "real \<Rightarrow> int list \<Rightarrow> real list \<Rightarrow> real list" where
  "level_flows amount [] cash_flows = cash_flows"
| "level_flows amount (k # ks) cash_flows = level_flows amount ks (cash_flows @ [amount])"

text \<open>
  The list \<^verbatim>\<open>cash_flows\<close> of \<^verbatim>\<open>calculate_effective_interest_rate\<close> as it is handed to
  the rate-of-return solve.
\<close>

definition cash_flows_of :: "LoanRepaymentRequest \<Rightarrow> error + real list" where
  "cash_flows_of request =
     (let cash_flows = [- principal request] in
      case loan_type request of
        annuity \<Rightarrow>
          (case calculate_annuity_payment (principal request) (rate request) (num_payments request) of
             Inl e \<Rightarrow> Inl e
           | Inr annuity_payment \<Rightarrow>
               let cash_flows = cash_flows @
                     [annuity_payment + initial_fee request + payment_fee request];
                   cash_flows = level_flows (annuity_payment + payment_fee request)
                     [2..num_payments request - 1] cash_flows
               in Inr (cash_flows @
                     [annuity_payment + payment_fee request + balloon_amount request]))
      | fixed_payment \<Rightarrow>
          (case calculate_fixed_payment (principal request) (rate request) (num_payments request) of
             Inl e \<Rightarrow> Inl e
           | Inr fixed_payment' \<Rightarrow>
               let cash_flows = cash_flows @
                     [fixed_payment' + initial_fee request + payment_fee request];
                   cash_flows = level_flows (fixed_payment' + payment_fee request)
                     [2..num_payments request - 1] cash_flows
               in Inr (cash_flows @
                     [fixed_payment' + payment_fee request + balloon_amount request]))
      | fixed_amortization \<Rightarrow>
          (let remaining_principal = principal request in
           case calculate_fixed_amortization_principal_payment (principal request)
                  (num_payments request) of
             Inl e \<Rightarrow> Inl e
           | Inr principal_payment \<Rightarrow>
               let first_interest_payment = remaining_principal * (rate request / 12 / 100);
                   cash_flows = cash_flows @
                     [principal_payment + first_interest_payment + initial_fee request
                        + payment_fee request];
                   (remaining_principal, cash_flows) =
                     amortization_flows principal_payment (rate request / 12 / 100)
                       (payment_fee request) [2..num_payments request - 1]
                       remaining_principal cash_flows;
                   last_interest_payment = remaining_principal * (rate request / 12 / 100)
               in Inr (cash_flows @
                     [principal_payment + last_interest_payment + payment_fee request
                        + balloon_amount request])))"

section \<open>Arithmetic as a parameter\<close>

text \<open>
  The five float operations of the source. An \<open>arith\<close> gives the result of an operation
  that raises nothing; which operands raise is decided where the operation is used.
\<close>

record arith =
  fadd :: "real \<Rightarrow> real \<Rightarrow> real"
  fsub :: "real \<Rightarrow> real \<Rightarrow> real"
  fmul :: "real \<Rightarrow> real \<Rightarrow> real"
  fdiv :: "real \<Rightarrow> real \<Rightarrow> real"
  fpow :: "real \<Rightarrow> int \<Rightarrow> real"

definition exact_pow :: "real \<Rightarrow> int \<Rightarrow> real" where
  "exact_pow x e = (if 0 \<le> e then x ^ nat e else 1 / x ^ nat (- e))"

definition exact :: arith where
  "exact = \<lparr>fadd = (+), fsub = (-), fmul = (*), fdiv = (/), fpow = exact_pow\<rparr>"

text \<open>
  Rounding to the nearest double, ties to even: the exponent of the result is that of the
  argument, but not below the exponent of the subnormal numbers, and the result is a
  multiple of the spacing \<open>2 ^ (exponent - 52)\<close> of the doubles at that exponent. The
  power is taken as correctly rounded.
\<close>

definition round_half_even :: "real \<Rightarrow> int" where
  "round_half_even y =
     (let f = \<lfloor>y\<rfloor>; d = y - of_int f in
      if d < 1 / 2 then f else if 1 / 2 < d then f + 1 else if even f then f else f + 1)"

definition binary64_exponent :: "real \<Rightarrow> int" where
  "binary64_exponent x = max (- 1022) \<lfloor>log 2 \<bar>x\<bar>\<rfloor>"

definition round64 :: "real \<Rightarrow> real" where
  "round64 x =
     (let q = 2 powi (binary64_exponent x - 52) in q * of_int (round_half_even (x / q)))"

definition binary64 :: arith where
  "binary64 =
     \<lparr>fadd = (\<lambda>a b. round64 (a + b)), fsub = (\<lambda>a b. round64 (a - b)),
      fmul = (\<lambda>a b. round64 (a * b)), fdiv = (\<lambda>a b. round64 (a / b)),
      fpow = (\<lambda>x e. round64 (exact_pow x e))\<rparr>"

text \<open>The smallest positive double, \<^verbatim>\<open>5e-324\<close>.\<close>

definition smallest_subnormal :: real where
  "smallest_subnormal = 1 / 2 ^ 1074"

section \<open>The engine over an arithmetic\<close>

text \<open>
  The same functions as above, operation by operation, with every float operation of the
  source taken from the arithmetic. \<open>monthly_rate_in\<close> is the expression
  \<^verbatim>\<open>rate / 12 / 100\<close>.
\<close>

definition float_truediv_in :: "arith \<Rightarrow> real \<Rightarrow> real \<Rightarrow> error + real" where
  "float_truediv_in ar a b = (if b = 0 then Inl ZeroDivisionError else Inr (fdiv ar a b))"

definition float_pow_in :: "arith \<Rightarrow> real \<Rightarrow> int \<Rightarrow> error + real" where
  "float_pow_in ar x e =
     (if e < 0 \<and> x = 0 then Inl ZeroDivisionError else Inr (fpow ar x e))"

definition monthly_rate_in :: "arith \<Rightarrow> real \<Rightarrow> real" where
  "monthly_rate_in ar rt = fdiv ar (fdiv ar rt 12) 100"

definition calculate_annuity_payment_in :: "arith \<Rightarrow> real \<Rightarrow> real \<Rightarrow> int \<Rightarrow> error + real" where
  "calculate_annuity_payment_in ar p rt n =
     (let monthly_interest_rate = monthly_rate_in ar rt in
      case float_pow_in ar (fadd ar 1 monthly_interest_rate) (- n) of
        Inl e \<Rightarrow> Inl e
      | Inr pw \<Rightarrow> float_truediv_in ar (fmul ar p monthly_interest_rate) (fsub ar 1 pw))"

definition calculate_fixed_payment_in :: "arith \<Rightarrow> real \<Rightarrow> real \<Rightarrow> int \<Rightarrow> error + real" where
  "calculate_fixed_payment_in ar p rt n =
     (let monthly_interest_rate = monthly_rate_in ar rt in
      if monthly_interest_rate = 0 then float_truediv_in ar p (of_int n)
      else
        case float_pow_in ar (fadd ar 1 monthly_interest_rate) (- n) of
          Inl e \<Rightarrow> Inl e
        | Inr pw \<Rightarrow> float_truediv_in ar (fmul ar p monthly_interest_rate) (fsub ar 1 pw))"

definition policy_split_in :: "arith \<Rightarrow> LoanRepaymentRequest \<Rightarrow> real \<Rightarrow> error + (real \<times> real)" where
  "policy_split_in ar request remaining_principal =
     (let monthly_interest_rate = monthly_rate_in ar (rate request) in
      case loan_type request of
        annuity \<Rightarrow>
          (case calculate_annuity_payment_in ar (principal request) (rate request)
                  (num_payments request) of
             Inl e \<Rightarrow> Inl e
           | Inr annuity_payment \<Rightarrow>
               let interest_for_payment = fmul ar remaining_principal monthly_interest_rate
               in Inr (fsub ar annuity_payment interest_for_payment, interest_for_payment))
      | fixed_payment \<Rightarrow>
          (case calculate_fixed_payment_in ar (principal request) (rate request)
                  (num_payments request) of
             Inl e \<Rightarrow> Inl e
           | Inr fixed_payment' \<Rightarrow>
               let interest_for_payment = fmul ar remaining_principal monthly_interest_rate
               in Inr (fsub ar fixed_payment' interest_for_payment, interest_for_payment))
      | fixed_amortization \<Rightarrow>
          (case float_truediv_in ar (principal request) (of_int (num_payments request)) of
             Inl e \<Rightarrow> Inl e
           | Inr principal_for_payment \<Rightarrow>
               Inr (principal_for_payment, fmul ar remaining_principal monthly_interest_rate)))"

definition loan_period_in ::
    "arith \<Rightarrow> LoanRepaymentRequest \<Rightarrow> int \<Rightarrow> real \<Rightarrow> error + (real \<times> PaymentDetail)" where
  "loan_period_in ar request k remaining_principal =
     (let fee_for_payment =
            fadd ar (payment_fee request) (if k = 1 then initial_fee request else 0) in
      case policy_split_in ar request remaining_principal of
        Inl e \<Rightarrow> Inl e
      | Inr (principal_for_payment, interest_for_payment) \<Rightarrow>
          let total_payment =
                fadd ar (fadd ar principal_for_payment interest_for_payment) fee_for_payment;
              total_payment =
                (if k = num_payments request then fadd ar total_payment (balloon_amount request)
                 else total_payment);
              principal_for_payment =
                (if k = num_payments request
                 then fadd ar principal_for_payment (balloon_amount request)
                 else principal_for_payment);
              remaining_principal = fsub ar remaining_principal
                (if k = num_payments request
                 then fsub ar principal_for_payment (balloon_amount request)
                 else principal_for_payment)
          in Inr (remaining_principal,
                  \<lparr>pd_payment_number = k, pd_principal = principal_for_payment,
                   pd_interest = interest_for_payment, pd_fee = fee_for_payment,
                   pd_total_amount = total_payment\<rparr>))"

fun loan_loop_in ::
    "arith \<Rightarrow> LoanRepaymentRequest \<Rightarrow> int list \<Rightarrow> real \<Rightarrow> PaymentDetail list
       \<Rightarrow> error + loop_outcome" where
  "loan_loop_in ar request [] remaining_principal payments_list =
     Inr (Completed remaining_principal payments_list)"
| "loan_loop_in ar request (k # ks) remaining_principal payments_list =
     (case loan_period_in ar request k remaining_principal of
        Inl e \<Rightarrow> Inl e
      | Inr (remaining_principal', detail) \<Rightarrow>
          let payments_list' = payments_list @ [detail] in
          if truthy (payment_number request) \<and> Some k = payment_number request
          then Inr (Returned (last payments_list'))
          else loan_loop_in ar request ks remaining_principal' payments_list')"

definition loan_repayments_in :: "arith \<Rightarrow> LoanRepaymentRequest \<Rightarrow> error + response" where
  "loan_repayments_in ar request =
     (case loan_loop_in ar request [1..num_payments request] (principal request) [] of
        Inl e \<Rightarrow> Inl e
      | Inr (Returned detail) \<Rightarrow> Inr (SinglePayment detail)
      | Inr (Completed remaining_principal payments_list) \<Rightarrow>
          (case payment_number request of
             None \<Rightarrow> Inr (AllPaymentsResponse payments_list)
           | Some p \<Rightarrow>
               if p \<noteq> 0 then Inl (HTTPException 404 p)
               else Inr (AllPaymentsResponse payments_list)))"

section \<open>The effective rate\<close>




section \<open>Properties of the engine\<close>

subsection \<open>The period computation does not read the selector\<close>

lemma policy_split_selector [simp]:
  "policy_split (request\<lparr>payment_number := x\<rparr>) b = policy_split request b"
  by (cases "loan_type request") (simp_all add: policy_split_def)

lemma loan_period_selector [simp]:
  "loan_period (request\<lparr>payment_number := x\<rparr>) k b = loan_period request k b"
  by (simp add: loan_period_def Let_def split: sum.split prod.split)

text \<open>What a period returns, in terms of the policy's split.\<close>

lemma loan_period_Inl:
  "policy_split request b = Inl e \<Longrightarrow> loan_period request k b = Inl e"
  by (simp add: loan_period_def)

lemma loan_period_Inr:
  "policy_split request b = Inr (pp, ii) \<Longrightarrow>
   loan_period request k b =
     Inr (b - pp,
          \<lparr>pd_payment_number = k,
           pd_principal = pp + (if k = num_payments request then balloon_amount request else 0),
           pd_interest = ii,
           pd_fee = payment_fee request + (if k = 1 then initial_fee request else 0),
           pd_total_amount = pp + ii + (payment_fee request + (if k = 1 then initial_fee request else 0))
              + (if k = num_payments request then balloon_amount request else 0)\<rparr>)"
  by (simp add: loan_period_def Let_def)

lemma loan_period_cases:
  obtains (error) e where "policy_split request b = Inl e" "loan_period request k b = Inl e"
  | (row) pp ii where "policy_split request b = Inr (pp, ii)"
      "loan_period request k b =
     Inr (b - pp,
          \<lparr>pd_payment_number = k,
           pd_principal = pp + (if k = num_payments request then balloon_amount request else 0),
           pd_interest = ii,
           pd_fee = payment_fee request + (if k = 1 then initial_fee request else 0),
           pd_total_amount = pp + ii + (payment_fee request + (if k = 1 then initial_fee request else 0))
              + (if k = num_payments request then balloon_amount request else 0)\<rparr>)"
proof (cases "policy_split request b")
  case (Inl e)
  then show ?thesis using error loan_period_Inl by blast
next
  case (Inr x)
  then show ?thesis using row loan_period_Inr by (cases x) blast
qed

subsection \<open>The loop without a selector\<close>


lemma loop_not_selected:
  "p \<notin> set ks \<Longrightarrow> payment_number request = Some p \<Longrightarrow>
   loan_loop request ks b ps = loan_loop (request\<lparr>payment_number := None\<rparr>) ks b ps"
  by (induction ks arbitrary: b ps) (auto simp: Let_def truthy_def split: sum.splits prod.splits)

lemma loop_unselected_not_Returned:
  "\<not> truthy (payment_number request) \<Longrightarrow> loan_loop request ks b ps \<noteq> Inr (Returned d)"
  by (induction ks arbitrary: b ps) (auto simp: Let_def split: sum.splits prod.splits)

lemma loop_Completed_rows:
  "loan_loop request ks b ps = Inr (Completed b' ps') \<Longrightarrow>
   \<exists>rows. ps' = ps @ rows \<and> length rows = length ks \<and>
     (\<forall>i<length ks. \<exists>bi bi'. loan_period request (ks ! i) bi = Inr (bi', rows ! i))"
proof (induction ks arbitrary: b ps)
  case Nil
  then show ?case by simp
next
  case (Cons k ks)
  from Cons.prems obtain b1 d where
    step: "loan_period request k b = Inr (b1, d)" and
    rest: "loan_loop request ks b1 (ps @ [d]) = Inr (Completed b' ps')"
    by (auto simp: Let_def split: sum.splits prod.splits if_splits)
  from Cons.IH [OF rest] obtain rows where rows: "ps' = (ps @ [d]) @ rows" "length rows = length ks"
    "\<forall>i<length ks. \<exists>bi bi'. loan_period request (ks ! i) bi = Inr (bi', rows ! i)"
    by blast
  have "ps' = ps @ (d # rows)" "length (d # rows) = length (k # ks)"
    using rows by simp_all
  moreover have "\<forall>i<length (k # ks). \<exists>bi bi'.
      loan_period request ((k # ks) ! i) bi = Inr (bi', (d # rows) ! i)"
    using step rows(3) by (auto simp: All_less_Suc2)
  ultimately show ?case by blast
qed

lemma loop_Returned_row:
  "loan_loop request ks b ps = Inr (Returned d) \<Longrightarrow>
   \<exists>k\<in>set ks. \<exists>bi bi'. loan_period request k bi = Inr (bi', d)"
proof (induction ks arbitrary: b ps)
  case Nil
  then show ?case by simp
next
  case (Cons k ks)
  from Cons.prems obtain b1 d1 where
    step: "loan_period request k b = Inr (b1, d1)"
    by (auto split: sum.splits)
  show ?case
  proof (cases "truthy (payment_number request) \<and> Some k = payment_number request")
    case True
    with Cons.prems step have "d = d1" by simp
    with step show ?thesis by auto
  next
    case False
    with Cons.prems step have "loan_loop request ks b1 (ps @ [d1]) = Inr (Returned d)"
      by (auto simp: Let_def)
    from Cons.IH [OF this] show ?thesis by auto
  qed
qed

subsection \<open>The final balance\<close>




subsection \<open>The split of each policy\<close>


lemma fixed_payment_is_annuity:
  "rt \<noteq> 0 \<Longrightarrow> calculate_fixed_payment p rt n = calculate_annuity_payment p rt n"
  by (simp add: calculate_fixed_payment_def calculate_annuity_payment_def)



lemma policy_split_fixed_amortization:
  assumes "loan_type request = fixed_amortization" "1 \<le> num_payments request"
  shows "policy_split request b =
     Inr (principal request / of_int (num_payments request), b * (rate request / 12 / 100))"
  using assms by (simp add: policy_split_def float_truediv_def)


lemma principal_before_balloon_selector [simp]:
  "principal_before_balloon (request\<lparr>payment_number := x\<rparr>) = principal_before_balloon request"
  by (simp add: principal_before_balloon_def fun_eq_iff)


subsection \<open>Errors of the loop\<close>

lemma policy_split_error_any:
  "policy_split request b = Inl e \<Longrightarrow> policy_split request b' = Inl e"
  by (cases "loan_type request") (auto simp: policy_split_def Let_def split: sum.splits)

lemma loop_error:
  "loan_loop request ks b ps = Inl e \<Longrightarrow> ks \<noteq> [] \<and> policy_split request b0 = Inl e"
proof (induction ks arbitrary: b ps)
  case Nil
  then show ?case by simp
next
  case (Cons k ks)
  show ?case
  proof (cases rule: loan_period_cases [of request b k])
    case (error e')
    with Cons.prems have "e' = e" by simp
    with error(1) policy_split_error_any show ?thesis by blast
  next
    case (row pp ii)
    with Cons.prems have "loan_loop request ks (b - pp) (ps @ [\<lparr>pd_payment_number = k,
           pd_principal = pp + (if k = num_payments request then balloon_amount request else 0),
           pd_interest = ii,
           pd_fee = payment_fee request + (if k = 1 then initial_fee request else 0),
           pd_total_amount = pp + ii + (payment_fee request + (if k = 1 then initial_fee request else 0))
              + (if k = num_payments request then balloon_amount request else 0)\<rparr>]) = Inl e"
      by (auto simp: Let_def split: if_splits)
    from Cons.IH [OF this] show ?thesis by simp
  qed
qed

subsection \<open>The loop with a selector\<close>

lemma loop_selected:
  assumes "payment_number request = Some p" "p \<noteq> 0" "p \<notin> set ks1"
    and "loan_loop (request\<lparr>payment_number := None\<rparr>) (ks1 @ p # ks2) b ps
           = Inr (Completed b' ps')"
  shows "loan_loop request (ks1 @ p # ks2) b ps = Inr (Returned (ps' ! (length ps + length ks1)))"
  using assms(3,4)
proof (induction ks1 arbitrary: b ps)
  case Nil
  from Nil.prems(2) obtain b1 d where
    step: "loan_period request p b = Inr (b1, d)" and
    rest: "loan_loop (request\<lparr>payment_number := None\<rparr>) ks2 b1 (ps @ [d]) = Inr (Completed b' ps')"
    by (auto simp: Let_def truthy_def split: sum.splits prod.splits)
  from loop_Completed_rows [OF rest] obtain rows where "ps' = (ps @ [d]) @ rows" by blast
  then have "ps' ! length ps = d" by simp
  with step assms(1,2) show ?case by (simp add: truthy_def)
next
  case (Cons k ks1)
  from Cons.prems(1) have kp: "k \<noteq> p" and notin: "p \<notin> set ks1" by auto
  from Cons.prems(2) obtain b1 d where
    step: "loan_period request k b = Inr (b1, d)" and
    rest: "loan_loop (request\<lparr>payment_number := None\<rparr>) (ks1 @ p # ks2) b1 (ps @ [d])
             = Inr (Completed b' ps')"
    by (auto simp: Let_def truthy_def split: sum.splits prod.splits)
  from Cons.IH [OF notin rest] step kp assms(1) show ?case by simp
qed

subsection \<open>When the schedule is defined\<close>

lemma unselected_outcome:
  "loan_repayments (request\<lparr>payment_number := None\<rparr>) = Inr (AllPaymentsResponse payments)
   \<longleftrightarrow> (\<exists>b'. loan_loop (request\<lparr>payment_number := None\<rparr>) [1..num_payments request]
          (principal request) [] = Inr (Completed b' payments))"
  using loop_unselected_not_Returned [of "request\<lparr>payment_number := None\<rparr>"
      "[1..num_payments request]" "principal request" "[]"]
  by (auto simp: loan_repayments_def truthy_def split: sum.splits loop_outcome.splits)

subsection \<open>Fixed payment and annuity\<close>

lemma policy_split_alias:
  assumes "0 < rate request"
  shows "policy_split (request\<lparr>loan_type := fixed_payment\<rparr>) b
       = policy_split (request\<lparr>loan_type := annuity\<rparr>) b"
  using assms fixed_payment_is_annuity [of "rate request" "principal request" "num_payments request"]
  by (simp add: policy_split_def)

lemma loan_period_alias:
  assumes "0 < rate request"
  shows "loan_period (request\<lparr>loan_type := fixed_payment\<rparr>) k b
       = loan_period (request\<lparr>loan_type := annuity\<rparr>) k b"
  unfolding loan_period_def policy_split_alias [OF assms]
  by (simp add: Let_def split: sum.split prod.split)

lemma loan_loop_alias:
  assumes "0 < rate request"
  shows "loan_loop (request\<lparr>loan_type := fixed_payment\<rparr>) ks b ps
       = loan_loop (request\<lparr>loan_type := annuity\<rparr>) ks b ps"
  by (induction ks arbitrary: b ps)
    (auto simp: loan_period_alias [OF assms] Let_def split: sum.split prod.split)

subsection \<open>Rows of the fixed-amortization policy\<close>

lemma period_principal_fixed_amortization:
  assumes fa: "loan_type request = fixed_amortization" and n: "1 \<le> num_payments request"
    and step: "loan_period request k b = Inr (b', d)"
  shows "pd_payment_number d = k \<and>
         pd_principal d = principal request / of_int (num_payments request)
           + (if k = num_payments request then balloon_amount request else 0)"
  using step loan_period_Inr [OF policy_split_fixed_amortization [OF fa n, of b], of k] by auto

subsection \<open>Cash flows of the level-payment policies\<close>

lemma level_flows_replicate:
  "level_flows amount ks cf = cf @ replicate (length ks) amount"
  by (induction ks arbitrary: cf) (simp_all add: replicate_app_Cons_same)

lemma period_total_level:
  assumes lt: "loan_type request = annuity \<or> loan_type request = fixed_payment"
    and step: "loan_period request k b = Inr (b', d)"
  shows "\<exists>A. (if loan_type request = annuity
               then calculate_annuity_payment (principal request) (rate request) (num_payments request)
               else calculate_fixed_payment (principal request) (rate request) (num_payments request))
              = Inr A
           \<and> pd_total_amount d =
               A + payment_fee request + (if k = 1 then initial_fee request else 0)
                 + (if k = num_payments request then balloon_amount request else 0)"
  using lt step
  by (auto simp: loan_period_def policy_split_def Let_def split: sum.splits)

lemma cash_flows_level:
  assumes lt: "loan_type request = annuity \<or> loan_type request = fixed_payment"
    and A: "(if loan_type request = annuity
               then calculate_annuity_payment (principal request) (rate request) (num_payments request)
               else calculate_fixed_payment (principal request) (rate request) (num_payments request))
              = Inr A"
  shows "cash_flows_of request =
     Inr ([- principal request, A + initial_fee request + payment_fee request]
          @ replicate (nat (num_payments request - 2)) (A + payment_fee request)
          @ [A + payment_fee request + balloon_amount request])"
  using lt A by (auto simp: cash_flows_of_def level_flows_replicate Let_def)

lemma level_nth:
  "i < m + 2 \<Longrightarrow>
   ([a] @ replicate m b @ [c]) ! i = (if i = 0 then a else if i = m + 1 then c else b)"
  by (auto simp: nth_append nth_Cons')

subsection \<open>Rounding to the nearest double\<close>

lemma round_half_even_of_int [simp]: "round_half_even (of_int j) = j"
  by (simp add: round_half_even_def)

lemma round64_zero [simp]: "round64 0 = 0"
  by (simp add: round64_def round_half_even_def)

lemma round64_of_int:
  assumes "\<bar>k\<bar> < 2 ^ 53"
  shows "round64 (of_int k) = of_int k"
proof (cases "k = 0")
  case True
  then show ?thesis by simp
next
  case False
  define e where "e = \<lfloor>log 2 \<bar>real_of_int k\<bar>\<rfloor>"
  have pos: "1 \<le> \<bar>real_of_int k\<bar>" using False by (simp flip: of_int_abs)
  have lt: "\<bar>real_of_int k\<bar> < 2 ^ 53" using assms by (simp flip: of_int_abs)
  have "0 \<le> log 2 \<bar>real_of_int k\<bar>" using pos by simp
  then have e0: "0 \<le> e" by (simp add: e_def)
  have "log 2 \<bar>real_of_int k\<bar> < 53"
    using pos lt by (subst log_less_iff) (simp_all add: powr_realpow)
  then have e52: "e \<le> 52" unfolding e_def by linarith
  have ex: "binary64_exponent (of_int k) = e" using e0 by (simp add: binary64_exponent_def e_def)
  define j where "j = nat (52 - e)"
  have q: "(2::real) powi (e - 52) = 1 / 2 ^ j"
    using e52 by (simp add: j_def power_int_def field_simps)
  have "real_of_int k / (1 / 2 ^ j) = of_int (k * 2 ^ j)" by simp
  then have "round_half_even (real_of_int k / (1 / 2 ^ j)) = k * 2 ^ j"
    by (simp only: round_half_even_of_int)
  then show ?thesis by (simp add: round64_def ex q)
qed

lemma round64_numeral [simp]:
  "(numeral w :: int) < 2 ^ 53 \<Longrightarrow> round64 (numeral w) = numeral w"
  using round64_of_int [of "numeral w"] by simp

lemma round64_one [simp]: "round64 1 = 1"
  using round64_of_int [of 1] by simp

lemma round64_underflow:
  assumes "\<bar>x\<bar> < 1 / 2 ^ 1075"
  shows "round64 x = 0"
proof (cases "x = 0")
  case True
  then show ?thesis by simp
next
  case False
  have "\<bar>x\<bar> < 2 powr (- 1022)"
  proof -
    have "(1::real) / 2 ^ 1075 \<le> 1 / 2 ^ 1022" by (simp add: field_simps)
    also have "\<dots> = 2 powr (- 1022)" by (simp add: powr_minus_divide powr_realpow flip: powr_numeral)
    finally show ?thesis using assms by simp
  qed
  then have "log 2 \<bar>x\<bar> < - 1022" using False by (subst log_less_iff) simp_all
  then have "\<lfloor>log 2 \<bar>x\<bar>\<rfloor> \<le> - 1022" by linarith
  then have ex: "binary64_exponent x = - 1022" by (simp add: binary64_exponent_def)
  have q: "(2::real) powi (- 1022 - 52) = 1 / 2 ^ 1074"
    by (simp add: power_int_def power_divide)
  have small: "\<bar>x / (1 / 2 ^ 1074)\<bar> < 1 / 2"
  proof -
    have "\<bar>x / (1 / 2 ^ 1074)\<bar> = \<bar>x\<bar> * 2 ^ 1074" by (simp add: abs_mult)
    also have "\<dots> < 1 / 2 ^ 1075 * 2 ^ 1074" using assms by (intro mult_strict_right_mono) simp_all
    also have "\<dots> = 1 / 2" by simp
    finally show ?thesis .
  qed
  have "round_half_even (x / (1 / 2 ^ 1074)) = 0"
  proof -
    let ?y = "x / (1 / 2 ^ 1074)"
    from small have "- 1 / 2 < ?y" "?y < 1 / 2" by (simp_all add: abs_less_iff)
    then consider "\<lfloor>?y\<rfloor> = 0" | "\<lfloor>?y\<rfloor> = - 1" by linarith
    then show ?thesis
    proof cases
      case 1
      then show ?thesis using \<open>?y < 1 / 2\<close> by (simp add: round_half_even_def Let_def)
    next
      case 2
      then show ?thesis using \<open>- 1 / 2 < ?y\<close> by (simp add: round_half_even_def Let_def)
    qed
  qed
  then show ?thesis by (simp add: round64_def ex q)
qed

lemma binary64_simps [simp]:
  "fadd binary64 a b = round64 (a + b)" "fsub binary64 a b = round64 (a - b)"
  "fmul binary64 a b = round64 (a * b)" "fdiv binary64 a b = round64 (a / b)"
  "fpow binary64 x e = round64 (exact_pow x e)"
  by (simp_all add: binary64_def)

lemma exact_pow_one [simp]: "exact_pow 1 e = 1"
  by (simp add: exact_pow_def)

text \<open>\<^verbatim>\<open>5e-324 / 12\<close> is \<^verbatim>\<open>0.0\<close>.\<close>

lemma smallest_subnormal_over_12: "round64 (1 / 2 ^ 1074 / 12) = 0"
proof (rule round64_underflow)
  have "(1::real) / 2 ^ 1074 / 12 = 1 / (12 * 2 ^ 1074)" by simp
  also have "\<dots> < 1 / (2 * 2 ^ 1074)"
    by (intro divide_strict_left_mono) simp_all
  also have "\<dots> = 1 / 2 ^ 1075" by simp
  finally show "\<bar>(1::real) / 2 ^ 1074 / 12\<bar> < 1 / 2 ^ 1075" by simp
qed

lemma smallest_subnormal_pos: "0 < smallest_subnormal"
  by (simp add: smallest_subnormal_def)

lemma monthly_rate_underflow [simp]: "monthly_rate_in binary64 smallest_subnormal = 0"
  by (simp only: smallest_subnormal_def monthly_rate_in_def binary64_simps
        smallest_subnormal_over_12) simp

subsection \<open>The exact instance is the exact engine\<close>

lemma exact_simps [simp]:
  "fadd exact = (+)" "fsub exact = (-)" "fmul exact = (*)" "fdiv exact = (/)"
  "fpow exact = exact_pow"
  by (simp_all add: exact_def)

lemma float_truediv_exact: "float_truediv_in exact = float_truediv"
  by (simp add: fun_eq_iff float_truediv_in_def float_truediv_def)

lemma float_pow_exact: "float_pow_in exact = float_pow"
  by (simp add: fun_eq_iff float_pow_in_def float_pow_def exact_pow_def)

lemma calculate_annuity_payment_exact: "calculate_annuity_payment_in exact = calculate_annuity_payment"
  by (simp add: fun_eq_iff calculate_annuity_payment_in_def calculate_annuity_payment_def
      monthly_rate_in_def float_truediv_exact float_pow_exact Let_def split: sum.split)

lemma calculate_fixed_payment_exact: "calculate_fixed_payment_in exact = calculate_fixed_payment"
  by (simp add: fun_eq_iff calculate_fixed_payment_in_def calculate_fixed_payment_def
      monthly_rate_in_def float_truediv_exact float_pow_exact Let_def split: sum.split)

lemma policy_split_exact: "policy_split_in exact = policy_split"
  by (simp add: fun_eq_iff policy_split_in_def policy_split_def monthly_rate_in_def
      calculate_annuity_payment_exact calculate_fixed_payment_exact float_truediv_exact Let_def
      split: sum.split LoanType.split)

lemma loan_period_exact: "loan_period_in exact = loan_period"
  by (simp add: fun_eq_iff loan_period_in_def loan_period_def policy_split_exact Let_def
      split: sum.split prod.split)

lemma loan_loop_exact: "loan_loop_in exact request ks b ps = loan_loop request ks b ps"
  by (induction ks arbitrary: b ps)
    (auto simp: loan_period_exact Let_def split: sum.split prod.split)

lemma loan_repayments_exact: "loan_repayments_in exact = loan_repayments"
  by (simp add: fun_eq_iff loan_repayments_in_def loan_repayments_def loan_loop_exact)

subsection \<open>Fixed payment and annuity over an arithmetic\<close>

lemma fixed_payment_is_annuity_in:
  "monthly_rate_in ar rt \<noteq> 0 \<Longrightarrow>
   calculate_fixed_payment_in ar p rt n = calculate_annuity_payment_in ar p rt n"
  by (simp add: calculate_fixed_payment_in_def calculate_annuity_payment_in_def)

lemma policy_split_alias_in:
  assumes "monthly_rate_in ar (rate request) \<noteq> 0"
  shows "policy_split_in ar (request\<lparr>loan_type := fixed_payment\<rparr>) b
       = policy_split_in ar (request\<lparr>loan_type := annuity\<rparr>) b"
  using fixed_payment_is_annuity_in [OF assms, of "principal request" "num_payments request"]
  by (simp add: policy_split_in_def)

lemma loan_period_alias_in:
  assumes "monthly_rate_in ar (rate request) \<noteq> 0"
  shows "loan_period_in ar (request\<lparr>loan_type := fixed_payment\<rparr>) k b
       = loan_period_in ar (request\<lparr>loan_type := annuity\<rparr>) k b"
  unfolding loan_period_in_def policy_split_alias_in [OF assms]
  by (simp add: Let_def split: sum.split prod.split)

lemma loan_loop_alias_in:
  assumes "monthly_rate_in ar (rate request) \<noteq> 0"
  shows "loan_loop_in ar (request\<lparr>loan_type := fixed_payment\<rparr>) ks b ps
       = loan_loop_in ar (request\<lparr>loan_type := annuity\<rparr>) ks b ps"
  by (induction ks arbitrary: b ps)
    (auto simp: loan_period_alias_in [OF assms] Let_def split: sum.split prod.split)

subsection \<open>Cash flows without a root\<close>


subsection \<open>Evaluation\<close>

lemmas engine_defs = loan_repayments_def loan_period_def policy_split_def
  calculate_annuity_payment_def calculate_fixed_payment_def
  calculate_fixed_amortization_principal_payment_def float_pow_def float_truediv_def
  truthy_def Let_def upto_rec1

lemmas engine_in_defs = loan_repayments_in_def loan_period_in_def policy_split_in_def
  calculate_annuity_payment_in_def calculate_fixed_payment_in_def
  float_pow_in_def float_truediv_in_def truthy_def Let_def upto_rec1

section \<open>Claims\<close>



text \<open>
  Claim C2 (cash flows of the solver against the totals of the schedule). The source
  breaks the claim. For fixed_amortization the balance is not reduced before the interest
  of the final cash flow is taken, so the final entry carries the interest of the period
  before: for a principal of 1200 at 12 percent over 2 payments the flows are
  \<open>[-1200, 612, 612]\<close> while the schedule's totals are 612 and 606.
\<close>

theorem cash_flows_differ_from_schedule:
  "cash_flows_of \<lparr>principal = 1200, rate = 12, num_payments = 2, loan_type = fixed_amortization,
     initial_fee = 0, payment_fee = 0, balloon_amount = 0, payment_number = None\<rparr>
     = Inr [- 1200, 612, 612]
   \<and> loan_repayments \<lparr>principal = 1200, rate = 12, num_payments = 2, loan_type = fixed_amortization,
     initial_fee = 0, payment_fee = 0, balloon_amount = 0, payment_number = None\<rparr>
     = Inr (AllPaymentsResponse
         [\<lparr>pd_payment_number = 1, pd_principal = 600, pd_interest = 12,
          pd_fee = 0, pd_total_amount = 612\<rparr>,
          \<lparr>pd_payment_number = 2, pd_principal = 600, pd_interest = 6,
          pd_fee = 0, pd_total_amount = 606\<rparr>])"
  by (simp add: engine_defs cash_flows_of_def)

text \<open>
  With a single payment the first and the final cash flow are both appended, for every
  policy: the vector has three entries, not two.
\<close>

lemma cash_flows_single_payment:
  "cash_flows_of \<lparr>principal = 1200, rate = 12, num_payments = 1, loan_type = annuity,
     initial_fee = 0, payment_fee = 0, balloon_amount = 0, payment_number = None\<rparr>
     = Inr [- 1200, 1212, 1212]
   \<and> loan_repayments \<lparr>principal = 1200, rate = 12, num_payments = 1, loan_type = annuity,
     initial_fee = 0, payment_fee = 0, balloon_amount = 0, payment_number = None\<rparr>
     = Inr (AllPaymentsResponse
         [\<lparr>pd_payment_number = 1, pd_principal = 1200, pd_interest = 12,
          pd_fee = 0, pd_total_amount = 1212\<rparr>])"
  by (simp add: engine_defs cash_flows_of_def)

text \<open>
  For annuity and fixed_payment with at least two payments the two code paths agree: the
  cash flows are minus the principal followed by the totals of the schedule's rows, in
  order.
\<close>

lemma cash_flows_match_level_policies:
  assumes lt: "loan_type request = annuity \<or> loan_type request = fixed_payment"
    and n: "2 \<le> num_payments request"
    and full: "loan_repayments (request\<lparr>payment_number := None\<rparr>) = Inr (AllPaymentsResponse payments)"
  shows "cash_flows_of request = Inr (- principal request # map pd_total_amount payments)"
proof -
  let ?n = "num_payments request"
  let ?req = "request\<lparr>payment_number := None\<rparr>"
  from full obtain b' where run:
    "loan_loop ?req [1..?n] (principal request) [] = Inr (Completed b' payments)"
    unfolding unselected_outcome by blast
  from loop_Completed_rows [OF run] have len: "length payments = nat ?n"
    and rows: "\<forall>i<nat ?n. \<exists>bi bi'. loan_period request ([1..?n] ! i) bi = Inr (bi', payments ! i)"
    by auto
  have idx: "[1..?n] ! i = 1 + int i" if "i < nat ?n" for i
    using that by (intro nth_upto) simp
  from rows n obtain b0 b0' where "loan_period request ([1..?n] ! 0) b0 = Inr (b0', payments ! 0)"
    by (metis zero_less_nat_eq less_le_trans zero_less_numeral not_less linorder_not_le)
  from period_total_level [OF lt this] obtain A where A:
    "(if loan_type request = annuity
               then calculate_annuity_payment (principal request) (rate request) ?n
               else calculate_fixed_payment (principal request) (rate request) ?n) = Inr A"
    by blast
  have tot: "pd_total_amount (payments ! i) =
               A + payment_fee request + (if i = 0 then initial_fee request else 0)
                 + (if int i + 1 = ?n then balloon_amount request else 0)" if i: "i < nat ?n" for i
  proof -
    from rows i idx [OF i] obtain bi bi' where
      "loan_period request (1 + int i) bi = Inr (bi', payments ! i)" by auto
    from period_total_level [OF lt this] A show ?thesis by (auto simp: add.commute)
  qed
  let ?flows = "[A + initial_fee request + payment_fee request]
          @ replicate (nat (?n - 2)) (A + payment_fee request)
          @ [A + payment_fee request + balloon_amount request]"
  have "map pd_total_amount payments = ?flows"
  proof (rule nth_equalityI)
    show "length (map pd_total_amount payments) = length ?flows" using len n by simp
  next
    fix i assume "i < length (map pd_total_amount payments)"
    then have i: "i < nat ?n" using len by simp
    then have bound: "i < nat (?n - 2) + 2" using n by linarith
    have last: "(i = nat (?n - 2) + 1) = (int i + 1 = ?n)" using n by linarith
    have first: "i = 0 \<Longrightarrow> int i + 1 \<noteq> ?n" using n by linarith
    have "map pd_total_amount payments ! i = pd_total_amount (payments ! i)"
      using i len by simp
    also have "\<dots> = A + payment_fee request + (if i = 0 then initial_fee request else 0)
                 + (if int i + 1 = ?n then balloon_amount request else 0)"
      using tot [OF i] .
    also have "\<dots> = ?flows ! i"
      unfolding level_nth [OF bound] last using first by simp
    finally show "map pd_total_amount payments ! i = ?flows ! i" .
  qed
  with cash_flows_level [OF lt A] show ?thesis by simp
qed

text \<open>
  Claim C3 (a selector outside \<open>[1, num_payments]\<close> fails with the out-of-range
  error). The source breaks the claim at the selector 0: it tests the selector's truth
  value, so a selector of 0, which is present and out of range, is taken for no selector
  and the full schedule is returned.
\<close>

theorem selector_zero_returns_schedule:
  "loan_repayments \<lparr>principal = 1200, rate = 12, num_payments = 2, loan_type = fixed_amortization,
     initial_fee = 0, payment_fee = 0, balloon_amount = 0, payment_number = Some 0\<rparr>
     = Inr (AllPaymentsResponse
         [\<lparr>pd_payment_number = 1, pd_principal = 600, pd_interest = 12,
          pd_fee = 0, pd_total_amount = 612\<rparr>,
          \<lparr>pd_payment_number = 2, pd_principal = 600, pd_interest = 6,
          pd_fee = 0, pd_total_amount = 606\<rparr>])"
  by (simp add: engine_defs)

text \<open>
  The other selectors out of range take the path the claim describes: the same request
  with the selector \<open>-1\<close> or 3 fails with the 404 error after the loop.
\<close>

lemma selector_beyond_schedule_raises:
  "loan_repayments \<lparr>principal = 1200, rate = 12, num_payments = 2, loan_type = fixed_amortization,
     initial_fee = 0, payment_fee = 0, balloon_amount = 0, payment_number = Some 3\<rparr>
     = Inl (HTTPException 404 3)
   \<and> loan_repayments \<lparr>principal = 1200, rate = 12, num_payments = 2, loan_type = fixed_amortization,
     initial_fee = 0, payment_fee = 0, balloon_amount = 0, payment_number = Some (- 1)\<rparr>
     = Inl (HTTPException 404 (- 1))"
  by (simp add: engine_defs)

text \<open>
  In general a selector that is not 0 and lies outside \<open>[1, num_payments]\<close> never
  yields a row or a schedule, and yields the 404 error whenever the same request without
  the selector yields a schedule.
\<close>

lemma nonzero_selector_out_of_range:
  assumes sel: "payment_number request = Some p" and p0: "p \<noteq> 0"
    and out: "p < 1 \<or> num_payments request < p"
  shows "(\<exists>e. loan_repayments request = Inl e)
       \<and> ((\<exists>payments. loan_repayments (request\<lparr>payment_number := None\<rparr>)
                = Inr (AllPaymentsResponse payments))
            \<longrightarrow> loan_repayments request = Inl (HTTPException 404 p))"
proof -
  let ?req = "request\<lparr>payment_number := None\<rparr>"
  let ?run = "loan_loop ?req [1..num_payments request] (principal request) []"
  have notin: "p \<notin> set [1..num_payments request]" using out by auto
  have same: "loan_loop request [1..num_payments request] (principal request) [] = ?run"
    using loop_not_selected [OF notin sel] .
  have not_ret: "\<And>d. ?run \<noteq> Inr (Returned d)"
    using loop_unselected_not_Returned [of ?req] by (simp add: truthy_def)
  have a: "\<exists>e. loan_repayments request = Inl e"
    using not_ret sel p0 unfolding loan_repayments_def same
    by (auto split: sum.splits loop_outcome.splits)
  have b: "loan_repayments request = Inl (HTTPException 404 p)"
    if "\<exists>payments. loan_repayments ?req = Inr (AllPaymentsResponse payments)"
  proof -
    from that obtain payments b' where "?run = Inr (Completed b' payments)"
      unfolding unselected_outcome by blast
    then show ?thesis using sel p0 unfolding loan_repayments_def same by simp
  qed
  from a b show ?thesis by blast
qed

text \<open>
  Where the period formula divides by zero, that error comes first: under annuity at
  rate 0 a selector out of range is answered with the division error of the first period.
\<close>

lemma zero_division_before_out_of_range:
  "loan_repayments \<lparr>principal = 1200, rate = 0, num_payments = 2, loan_type = annuity,
     initial_fee = 0, payment_fee = 0, balloon_amount = 0, payment_number = Some 3\<rparr>
     = Inl ZeroDivisionError"
  by (simp add: engine_defs)

text \<open>
  Claim C4. A request whose selector \<open>k\<close> lies in \<open>[1, num_payments]\<close> returns the
  single row that stands at position \<open>k\<close> of the full schedule of the same request
  without the selector, all five fields alike. Where the request without the selector
  fails, the request with it fails with the same error.
\<close>

theorem selected_payment_is_schedule_row:
  assumes sel: "payment_number request = Some k" and k: "1 \<le> k" "k \<le> num_payments request"
  shows "(\<forall>payments.
            loan_repayments (request\<lparr>payment_number := None\<rparr>) = Inr (AllPaymentsResponse payments)
            \<longrightarrow> nat (k - 1) < length payments
                \<and> loan_repayments request = Inr (SinglePayment (payments ! nat (k - 1))))
       \<and> (\<forall>e. loan_repayments (request\<lparr>payment_number := None\<rparr>) = Inl e
            \<longrightarrow> loan_repayments request = Inl e)"
proof (intro conjI allI impI)
  let ?req = "request\<lparr>payment_number := None\<rparr>"
  let ?n = "num_payments request"
  have k0: "k \<noteq> 0" using k by simp
  have split: "[1..?n] = [1..k - 1] @ k # [k + 1..?n]"
    using k by (rule upto_split3)
  have notin: "k \<notin> set [1..k - 1]" by simp
  have len: "length [1..k - 1] = nat (k - 1)" by simp
  {
    fix payments
    assume full: "loan_repayments ?req = Inr (AllPaymentsResponse payments)"
    then obtain b' where run: "loan_loop ?req [1..?n] (principal request) [] = Inr (Completed b' payments)"
      by (auto simp: loan_repayments_def split: sum.splits loop_outcome.splits)
    from loop_Completed_rows [OF run] have "length payments = nat ?n" by auto
    then show "nat (k - 1) < length payments" using k by simp
    from loop_selected [OF sel k0 notin run [unfolded split]]
    have "loan_loop request [1..?n] (principal request) [] = Inr (Returned (payments ! nat (k - 1)))"
      unfolding len split by simp
    then show "loan_repayments request = Inr (SinglePayment (payments ! nat (k - 1)))"
      by (simp add: loan_repayments_def)
  next
    fix e
    assume "loan_repayments ?req = Inl e"
    then have "loan_loop ?req [1..?n] (principal request) [] = Inl e"
      by (auto simp: loan_repayments_def split: sum.splits loop_outcome.splits)
    from loop_error [OF this, of "principal request"]
    have err: "policy_split request (principal request) = Inl e" by simp
    have "[1..?n] = 1 # [2..?n]" using k by (simp add: upto_rec1)
    then have "loan_loop request [1..?n] (principal request) [] = Inl e"
      using loan_period_Inl [OF err] by simp
    then show "loan_repayments request = Inl e" by (simp add: loan_repayments_def)
  }
qed

theorem selected_payment_is_schedule_row_witness:
  "payment_number \<lparr>principal = 1200, rate = 12, num_payments = 2, loan_type = fixed_amortization,
       initial_fee = 0, payment_fee = 0, balloon_amount = 0, payment_number = Some 2\<rparr> = Some 2
   \<and> (1::int) \<le> 2
   \<and> 2 \<le> num_payments \<lparr>principal = 1200, rate = 12, num_payments = 2, loan_type = fixed_amortization,
       initial_fee = 0, payment_fee = 0, balloon_amount = 0, payment_number = Some 2\<rparr>
   \<and> loan_repayments \<lparr>principal = 1200, rate = 12, num_payments = 2, loan_type = fixed_amortization,
       initial_fee = 0, payment_fee = 0, balloon_amount = 0, payment_number = Some 2\<rparr>
       = Inr (SinglePayment
           \<lparr>pd_payment_number = 2, pd_principal = 600, pd_interest = 6,
            pd_fee = 0, pd_total_amount = 606\<rparr>)"
proof -
  have full: "loan_repayments \<lparr>principal = 1200, rate = 12, num_payments = 2, loan_type = fixed_amortization,
       initial_fee = 0, payment_fee = 0, balloon_amount = 0, payment_number = None\<rparr>
     = Inr (AllPaymentsResponse
         [\<lparr>pd_payment_number = 1, pd_principal = 600, pd_interest = 12,
          pd_fee = 0, pd_total_amount = 612\<rparr>,
          \<lparr>pd_payment_number = 2, pd_principal = 600, pd_interest = 6,
          pd_fee = 0, pd_total_amount = 606\<rparr>])"
    by (simp add: engine_defs)
  show ?thesis
    using selected_payment_is_schedule_row [of "\<lparr>principal = 1200, rate = 12, num_payments = 2, loan_type = fixed_amortization,
       initial_fee = 0, payment_fee = 0, balloon_amount = 0, payment_number = Some 2\<rparr>" 2] full
    by simp
qed

text \<open>
  Claim C5 (total_sum ignores the selector). The source breaks the claim: total_sum hands
  the request with its selector to loan_repayments, which returns a single row for a
  selector in range, and reading the rows of that response raises an attribute error.
\<close>

theorem total_sum_with_selector_fails:
  "total_sum \<lparr>principal = 1200, rate = 12, num_payments = 2, loan_type = fixed_amortization,
     initial_fee = 0, payment_fee = 0, balloon_amount = 0, payment_number = Some 1\<rparr>
     = Inl AttributeError
   \<and> total_sum \<lparr>principal = 1200, rate = 12, num_payments = 2, loan_type = fixed_amortization,
     initial_fee = 0, payment_fee = 0, balloon_amount = 0, payment_number = None\<rparr>
     = Inr \<lparr>pd_payment_number = 0, pd_principal = 1200, pd_interest = 18,
          pd_fee = 0, pd_total_amount = 1218\<rparr>"
  by (simp add: engine_defs total_sum_def)




text \<open>
  Claim C7, as stated, fails: with a balloon the final row's principal component is
  \<open>principal / num_payments\<close> plus the balloon.
\<close>

theorem balloon_in_final_principal:
  "loan_repayments \<lparr>principal = 1200, rate = 12, num_payments = 2, loan_type = fixed_amortization,
     initial_fee = 0, payment_fee = 0, balloon_amount = 100, payment_number = None\<rparr>
     = Inr (AllPaymentsResponse
         [\<lparr>pd_payment_number = 1, pd_principal = 600, pd_interest = 12,
          pd_fee = 0, pd_total_amount = 612\<rparr>,
          \<lparr>pd_payment_number = 2, pd_principal = 700, pd_interest = 6,
          pd_fee = 0, pd_total_amount = 706\<rparr>])
   \<and> pd_principal \<lparr>pd_payment_number = 2, pd_principal = 700, pd_interest = 6,
          pd_fee = 0, pd_total_amount = 706\<rparr>
       \<noteq> principal \<lparr>principal = 1200, rate = 12, num_payments = 2, loan_type = fixed_amortization,
           initial_fee = 0, payment_fee = 0, balloon_amount = 100, payment_number = None\<rparr>
         / of_int (num_payments \<lparr>principal = 1200, rate = 12, num_payments = 2, loan_type = fixed_amortization,
           initial_fee = 0, payment_fee = 0, balloon_amount = 100, payment_number = None\<rparr>)"
  by (simp add: engine_defs)

text \<open>
  Claim C7, amended. Under fixed_amortization every row of the returned schedule but the
  final one has the principal component \<open>principal / num_payments\<close>, and the final row
  (payment number \<open>num_payments\<close>) has \<open>principal / num_payments\<close> plus the balloon
  amount; the same holds for the single row returned for a selector.
\<close>

theorem fixed_amortization_principal:
  assumes fa: "loan_type request = fixed_amortization"
  shows "(\<forall>payments. loan_repayments request = Inr (AllPaymentsResponse payments) \<longrightarrow>
            (\<forall>i<length payments.
               pd_principal (payments ! i) =
                 principal request / of_int (num_payments request)
                   + (if int i + 1 = num_payments request then balloon_amount request else 0)))
       \<and> (\<forall>d. loan_repayments request = Inr (SinglePayment d) \<longrightarrow>
            pd_principal d =
              principal request / of_int (num_payments request)
                + (if pd_payment_number d = num_payments request then balloon_amount request else 0))"
proof (intro conjI allI impI)
  let ?n = "num_payments request"
  let ?run = "loan_loop request [1..?n] (principal request) []"
  {
    fix payments i
    assume full: "loan_repayments request = Inr (AllPaymentsResponse payments)"
      and i: "i < length payments"
    from full obtain b' where run: "?run = Inr (Completed b' payments)"
      by (auto simp: loan_repayments_def split: sum.splits loop_outcome.splits option.splits if_splits)
    from loop_Completed_rows [OF run] have len: "length payments = length [1..?n]"
      and rows: "\<forall>j<length [1..?n]. \<exists>bi bi'. loan_period request ([1..?n] ! j) bi = Inr (bi', payments ! j)"
      by auto
    from i len have n: "1 \<le> ?n" and i': "i < length [1..?n]" "1 + int i \<le> ?n" by auto
    from rows i' obtain bi bi' where "loan_period request ([1..?n] ! i) bi = Inr (bi', payments ! i)"
      by blast
    moreover have "[1..?n] ! i = 1 + int i" using i'(2) by (rule nth_upto)
    ultimately have "loan_period request (1 + int i) bi = Inr (bi', payments ! i)" by simp
    from period_principal_fixed_amortization [OF fa n this]
    show "pd_principal (payments ! i) =
                 principal request / of_int ?n
                   + (if int i + 1 = ?n then balloon_amount request else 0)"
      by (simp add: add.commute)
  next
    fix d
    assume "loan_repayments request = Inr (SinglePayment d)"
    then have "?run = Inr (Returned d)"
      by (auto simp: loan_repayments_def split: sum.splits loop_outcome.splits option.splits if_splits)
    from loop_Returned_row [OF this] obtain k bi bi' where
      k: "k \<in> set [1..?n]" and step: "loan_period request k bi = Inr (bi', d)" by blast
    from k have n: "1 \<le> ?n" by auto
    from period_principal_fixed_amortization [OF fa n step]
    show "pd_principal d = principal request / of_int ?n
                + (if pd_payment_number d = ?n then balloon_amount request else 0)"
      by simp
  }
qed

theorem fixed_amortization_principal_witness:
  "loan_type \<lparr>principal = 1200, rate = 12, num_payments = 2, loan_type = fixed_amortization,
       initial_fee = 0, payment_fee = 0, balloon_amount = 100, payment_number = None\<rparr> = fixed_amortization
   \<and> pd_principal \<lparr>pd_payment_number = 1, pd_principal = 600, pd_interest = 12,
          pd_fee = 0, pd_total_amount = 612\<rparr> = 1200 / 2
   \<and> pd_principal \<lparr>pd_payment_number = 2, pd_principal = 700, pd_interest = 6,
          pd_fee = 0, pd_total_amount = 706\<rparr> = 1200 / 2 + 100"
proof -
  have full: "loan_repayments \<lparr>principal = 1200, rate = 12, num_payments = 2, loan_type = fixed_amortization,
       initial_fee = 0, payment_fee = 0, balloon_amount = 100, payment_number = None\<rparr>
     = Inr (AllPaymentsResponse
         [\<lparr>pd_payment_number = 1, pd_principal = 600, pd_interest = 12,
          pd_fee = 0, pd_total_amount = 612\<rparr>,
          \<lparr>pd_payment_number = 2, pd_principal = 700, pd_interest = 6,
          pd_fee = 0, pd_total_amount = 706\<rparr>])"
    by (simp add: engine_defs)
  show ?thesis
    using fixed_amortization_principal [of "\<lparr>principal = 1200, rate = 12, num_payments = 2, loan_type = fixed_amortization,
       initial_fee = 0, payment_fee = 0, balloon_amount = 100, payment_number = None\<rparr>"] full
    by simp
qed




text \<open>
  Claim C9, as stated, fails. The rate \<^verbatim>\<open>5e-324\<close> is positive, but \<^verbatim>\<open>rate / 12 / 100\<close>
  is \<^verbatim>\<open>0.0\<close> in doubles: fixed_payment takes its branch for a zero rate and returns a
  schedule, and annuity raises a division by zero.
\<close>

theorem fixed_payment_differs_at_underflow:
  "0 < rate \<lparr>principal = 1200, rate = smallest_subnormal, num_payments = 2,
        loan_type = fixed_payment, initial_fee = 0, payment_fee = 0, balloon_amount = 0,
        payment_number = None\<rparr>
   \<and> loan_repayments_in binary64
       \<lparr>principal = 1200, rate = smallest_subnormal, num_payments = 2,
        loan_type = fixed_payment, initial_fee = 0, payment_fee = 0, balloon_amount = 0,
        payment_number = None\<rparr>
     = Inr (AllPaymentsResponse
         [\<lparr>pd_payment_number = 1, pd_principal = 600, pd_interest = 0,
           pd_fee = 0, pd_total_amount = 600\<rparr>,
          \<lparr>pd_payment_number = 2, pd_principal = 600, pd_interest = 0,
           pd_fee = 0, pd_total_amount = 600\<rparr>])
   \<and> loan_repayments_in binary64
       \<lparr>principal = 1200, rate = smallest_subnormal, num_payments = 2,
        loan_type = annuity, initial_fee = 0, payment_fee = 0, balloon_amount = 0,
        payment_number = None\<rparr>
     = Inl ZeroDivisionError"
  by (simp add: engine_in_defs smallest_subnormal_pos)

text \<open>
  Claim C9, amended. For every request whose computed monthly rate \<^verbatim>\<open>rate / 12 / 100\<close>
  is not 0, loan_repayments returns for the fixed_payment policy exactly what it returns
  for the annuity policy on the same request: the same schedule, the same single row or
  the same error. This holds for every arithmetic.
\<close>

theorem fixed_payment_alias_when_rate_computes_nonzero:
  assumes "monthly_rate_in ar (rate request) \<noteq> 0"
  shows "loan_repayments_in ar (request\<lparr>loan_type := fixed_payment\<rparr>)
       = loan_repayments_in ar (request\<lparr>loan_type := annuity\<rparr>)"
  by (simp add: loan_repayments_in_def loan_loop_alias_in [OF assms]
        split: sum.split loop_outcome.split)

theorem fixed_payment_alias_when_rate_computes_nonzero_witness:
  "monthly_rate_in exact (rate \<lparr>principal = 1200, rate = 12, num_payments = 2, loan_type = annuity,
        initial_fee = 100, payment_fee = 3, balloon_amount = 50, payment_number = None\<rparr>) \<noteq> 0
   \<and> loan_repayments_in exact
       \<lparr>principal = 1200, rate = 12, num_payments = 2, loan_type = fixed_payment,
        initial_fee = 100, payment_fee = 3, balloon_amount = 50, payment_number = None\<rparr>
     = loan_repayments_in exact
       \<lparr>principal = 1200, rate = 12, num_payments = 2, loan_type = annuity,
        initial_fee = 100, payment_fee = 3, balloon_amount = 50, payment_number = None\<rparr>"
  using fixed_payment_alias_when_rate_computes_nonzero [of exact
      "\<lparr>principal = 1200, rate = 12, num_payments = 2, loan_type = annuity,
       initial_fee = 100, payment_fee = 3, balloon_amount = 50, payment_number = None\<rparr>"]
  by (simp add: monthly_rate_in_def)

text \<open>
  In exact arithmetic the computed monthly rate of a positive rate is not 0, and the two
  policies agree for every positive rate.
\<close>

lemma fixed_payment_alias_exact:
  assumes "0 < rate request"
  shows "loan_repayments (request\<lparr>loan_type := fixed_payment\<rparr>)
       = loan_repayments (request\<lparr>loan_type := annuity\<rparr>)"
  by (simp add: loan_repayments_def loan_loop_alias [OF assms]
        split: sum.split loop_outcome.split)

text \<open>
  Claim C10. For a request without a selector, total_sum returns the row with payment
  number 0 whose principal, interest, fee and total amount are the sums of those fields
  over the rows of the full schedule that loan_repayments returns for the request;
  loan_repayments never returns a single row for such a request, and where it fails,
  total_sum fails with the same error.
\<close>

theorem total_sum_aggregates:
  assumes "payment_number request = None"
  shows "(\<forall>payments. loan_repayments request = Inr (AllPaymentsResponse payments) \<longrightarrow>
            total_sum request =
              Inr \<lparr>pd_payment_number = 0,
                   pd_principal = sum_list (map pd_principal payments),
                   pd_interest = sum_list (map pd_interest payments),
                   pd_fee = sum_list (map pd_fee payments),
                   pd_total_amount = sum_list (map pd_total_amount payments)\<rparr>)
       \<and> (\<forall>e. loan_repayments request = Inl e \<longrightarrow> total_sum request = Inl e)
       \<and> (\<forall>d. loan_repayments request \<noteq> Inr (SinglePayment d))"
proof -
  have "\<not> truthy (payment_number request)" using assms by (simp add: truthy_def)
  from loop_unselected_not_Returned [OF this]
  have "\<forall>d. loan_repayments request \<noteq> Inr (SinglePayment d)"
    using assms by (auto simp: loan_repayments_def split: sum.splits loop_outcome.splits)
  then show ?thesis by (simp add: total_sum_def)
qed

theorem total_sum_aggregates_witness:
  "payment_number \<lparr>principal = 1200, rate = 12, num_payments = 2, loan_type = fixed_amortization,
       initial_fee = 100, payment_fee = 3, balloon_amount = 50, payment_number = None\<rparr> = None
   \<and> total_sum \<lparr>principal = 1200, rate = 12, num_payments = 2, loan_type = fixed_amortization,
       initial_fee = 100, payment_fee = 3, balloon_amount = 50, payment_number = None\<rparr>
     = Inr \<lparr>pd_payment_number = 0, pd_principal = 1250, pd_interest = 18,
          pd_fee = 106, pd_total_amount = 1374\<rparr>"
proof -
  have full: "loan_repayments \<lparr>principal = 1200, rate = 12, num_payments = 2, loan_type = fixed_amortization,
       initial_fee = 100, payment_fee = 3, balloon_amount = 50, payment_number = None\<rparr>
     = Inr (AllPaymentsResponse
         [\<lparr>pd_payment_number = 1, pd_principal = 600, pd_interest = 12,
          pd_fee = 103, pd_total_amount = 715\<rparr>,
          \<lparr>pd_payment_number = 2, pd_principal = 650, pd_interest = 6,
          pd_fee = 3, pd_total_amount = 659\<rparr>])"
    by (simp add: engine_defs)
  show ?thesis
    using total_sum_aggregates [of "\<lparr>principal = 1200, rate = 12, num_payments = 2, loan_type = fixed_amortization,
       initial_fee = 100, payment_fee = 3, balloon_amount = 50, payment_number = None\<rparr>"] full
    by simp
qed

end
